theory Spec2Isabelle
  imports Main
begin

section \<open>Strings of the grocery-list parser\<close>

text \<open>
  The two parsers of the repository are the function \<open>parseMultipleItems\<close> inside
  \<open>handleVoiceCommand\<close> (the voice assistant, AudioAssistant.tsx) and the function
  \<open>parseMultipleItems\<close> inside \<open>handleChatSubmit\<close> (the chat input of the customer
  page). Both are closures over the product list; here the product list is a parameter.

  A JavaScript string is a sequence of code units. The model takes the code units below
  256 (Latin-1), one \<open>char\<close> each, and reads a \<open>char\<close> through \<open>of_char\<close>. On these
  \<open>toLowerCase\<close> maps every code unit to one code unit. Product identifiers are the
  numbers that are integers.
\<close>

definition is_digit :: "char \<Rightarrow> bool" where
  \<comment> \<open>the class \<open>\d\<close>\<close>
  "is_digit c = (48 \<le> (of_char c :: nat) \<and> (of_char c :: nat) \<le> 57)"

definition is_lower_az :: "char \<Rightarrow> bool" where
  \<comment> \<open>the class \<open>a-z\<close>\<close>
  "is_lower_az c = (97 \<le> (of_char c :: nat) \<and> (of_char c :: nat) \<le> 122)"

definition is_space :: "char \<Rightarrow> bool" where
  \<comment> \<open>the class \<open>\s\<close>, also what \<open>trim\<close> removes: TAB, LF, VT, FF, CR, SP, NBSP\<close>
  "is_space c = ((9 \<le> (of_char c :: nat) \<and> (of_char c :: nat) \<le> 13)
                 \<or> (of_char c :: nat) = 32 \<or> (of_char c :: nat) = 160)"

definition is_word_char :: "char \<Rightarrow> bool" where
  \<comment> \<open>the class \<open>\w\<close>, which decides \<open>\b\<close>: letters, digits and the underscore\<close>
  "is_word_char c = (is_digit c \<or> is_lower_az c
                     \<or> (65 \<le> (of_char c :: nat) \<and> (of_char c :: nat) \<le> 90)
                     \<or> (of_char c :: nat) = 95)"

definition to_lower :: "char \<Rightarrow> char" where
  "to_lower c =
     (let n = (of_char c :: nat)
      in if (65 \<le> n \<and> n \<le> 90) \<or> (192 \<le> n \<and> n \<le> 222 \<and> n \<noteq> 215)
         then char_of (n + 32) else c)"

definition toLowerCase :: "string \<Rightarrow> string" where
  "toLowerCase s = map to_lower s"

definition trim :: "string \<Rightarrow> string" where
  "trim s = rev (dropWhile is_space (rev (dropWhile is_space s)))"

definition endsWith :: "string \<Rightarrow> string \<Rightarrow> bool" where
  "endsWith w s = (length s \<le> length w \<and> drop (length w - length s) w = s)"

definition slice_end :: "string \<Rightarrow> nat \<Rightarrow> string" where
  \<comment> \<open>\<open>w.slice(0, -k)\<close>\<close>
  "slice_end w k = take (length w - k) w"

definition digits_value :: "string \<Rightarrow> int" where
  \<comment> \<open>the integer that a run of decimal digits denotes\<close>
  "digits_value ds = foldl (\<lambda>n c. 10 * n + ((of_char c :: int) - 48)) 0 ds"

subsection \<open>Sets of tokens\<close>

text \<open>A JavaScript \<open>Set\<close> keeps its members in the order of their first insertion.\<close>

definition Set_add :: "string list \<Rightarrow> string \<Rightarrow> string list" where
  "Set_add s t = (if t \<in> set s then s else s @ [t])"

definition new_Set :: "string list \<Rightarrow> string list" where
  "new_Set ts = foldl Set_add [] ts"

definition Set_has :: "string list \<Rightarrow> string \<Rightarrow> bool" where
  "Set_has s t = (t \<in> set s)"

definition Set_delete :: "string \<Rightarrow> string list \<Rightarrow> string list" where
  "Set_delete t s = filter (\<lambda>u. u \<noteq> t) s"

subsection \<open>Tokenization\<close>

definition STOP_WORDS :: "string list" where
  "STOP_WORDS = [''fresh'', ''organic'', ''whole'', ''sweet'', ''some'', ''add'', ''get'',
     ''need'', ''want'', ''please'', ''a'', ''an'', ''the'', ''and'', ''kg'', ''dozen'',
     ''cup'', ''cups'', ''litre'', ''liter'', ''per'']"

definition singularize :: "string \<Rightarrow> string" where
  "singularize w =
     (if endsWith w ''ies'' then slice_end w 3 @ ''y''
      else if endsWith w ''es'' then slice_end w 2
      else if endsWith w ''s'' \<and> length w > 3 then slice_end w 1
      else w)"

text \<open>
  \<open>split(/\s+/)\<close>: the scan of \<open>String.prototype.split\<close> with a regular expression.
  \<open>cur\<close> holds, reversed, the code units since the end of the last match; a match at the
  head of the rest takes the whole run of white space. The piece before a match is
  emitted also when it is empty, and so is the piece after the last match.
\<close>

function split_ws_loop :: "string \<Rightarrow> string \<Rightarrow> string list" where
  "split_ws_loop cur [] = [rev cur]"
| "split_ws_loop cur (c # cs) =
     (if is_space c then rev cur # split_ws_loop [] (dropWhile is_space cs)
      else split_ws_loop (c # cur) cs)"
  by pat_completeness auto
termination
  by (relation "measure (\<lambda>(cur, rest). length rest)")
     (auto simp: length_dropWhile_le less_Suc_eq_le)

definition split_ws :: "string \<Rightarrow> string list" where
  "split_ws s = split_ws_loop [] s"

definition keep_chat :: "char \<Rightarrow> bool" where
  \<comment> \<open>the class \<open>[a-z\s\d]\<close> of the chat tokenizer\<close>
  "keep_chat c = (is_lower_az c \<or> is_space c \<or> is_digit c)"

definition keep_voice :: "char \<Rightarrow> bool" where
  \<comment> \<open>the class \<open>[a-z\s]\<close> of the voice tokenizer\<close>
  "keep_voice c = (is_lower_az c \<or> is_space c)"

definition replace_outside :: "(char \<Rightarrow> bool) \<Rightarrow> string \<Rightarrow> string" where
  \<comment> \<open>\<open>.replace(/[^...]/g, ' ')\<close>\<close>
  "replace_outside keep s = map (\<lambda>c. if keep c then c else CHR '' '') s"

definition tokenize_with :: "(char \<Rightarrow> bool) \<Rightarrow> string \<Rightarrow> string list" where
  "tokenize_with keep text =
     filter (\<lambda>t. t \<noteq> [] \<and> t \<notin> set STOP_WORDS)
       (map singularize (split_ws (replace_outside keep (toLowerCase text))))"

definition tokenize_voice :: "string \<Rightarrow> string list" where
  "tokenize_voice text = tokenize_with keep_voice text"

definition tokenize_chat :: "string \<Rightarrow> string list" where
  "tokenize_chat text = tokenize_with keep_chat text"

section \<open>Catalog and parsed items\<close>

text \<open>
  Of a product the parsers read \<open>id\<close>, \<open>name\<close> and \<open>category\<close>; \<open>price\<close>, \<open>unit\<close>,
  \<open>stock\<close> and \<open>image\<close> are never read by them and are left out.
\<close>

record product =
  id_p :: int
  name_p :: string
  category_p :: string

text \<open>
  A quantity is a double. From 0 to \<open>2 ^ 53\<close> every integer is a double and a sum
  that stays in this range is exact: \<open>Number n\<close> is the double of the value \<open>n\<close>, and
  \<open>n\<close> is in this range in every quantity that the parsers make. Beyond it
  \<open>parseInt\<close> rounds (past 20 digits as the implementation chooses, at last to
  \<open>Infinity\<close>) and so does \<open>+\<close>: \<open>Inexact\<close> stands for a double of at least
  \<open>2 ^ 53\<close> whose value the model does not follow.

  The quantity is a number in every path but one: the chat parser looks a token up with
  \<open>quantityMap[t] !== undefined\<close> in an object literal, which also finds what the object
  inherits. Of the names a token can have (lower-case letters and digits) that is
  \<open>constructor\<close>, whose value is a function; \<open>NotNumber\<close> stands for that value and
  for the string that \<open>+\<close> makes of it.
\<close>

datatype quantity_value = Number int | Inexact | NotNumber

definition double_of_int :: "int \<Rightarrow> quantity_value" where
  \<comment> \<open>the bound is \<open>2 ^ 53\<close>\<close>
  "double_of_int n = (if n \<le> 9007199254740992 then Number n else Inexact)"

definition parseInt :: "string \<Rightarrow> quantity_value" where
  \<comment> \<open>\<open>parseInt\<close> on a run of decimal digits, the only strings the parsers take a
      quantity from\<close>
  "parseInt ds = double_of_int (digits_value ds)"

record parsed_item =
  productId :: int
  quantity :: quantity_value

record scored =
  scored_productId :: int
  score :: nat

section \<open>Product matching\<close>

definition score_of :: "(string \<Rightarrow> string list) \<Rightarrow> string list \<Rightarrow> product \<Rightarrow> nat" where
  \<comment> \<open>\<open>nameTokens.forEach(t => { if (partTokens.has(t)) score += 1; })\<close>\<close>
  "score_of tokenize partTokens p =
     length (filter (Set_has partTokens) (new_Set (tokenize (name_p p))))"

definition score_products ::
  "(string \<Rightarrow> string list) \<Rightarrow> product list \<Rightarrow> string list \<Rightarrow> scored list" where
  "score_products tokenize products partTokens =
     map (\<lambda>p. \<lparr>scored_productId = id_p p, score = score_of tokenize partTokens p\<rparr>) products"

text \<open>
  \<open>sort((a, b) => b.score - a.score)\<close>: \<open>Array.prototype.sort\<close> is stable, so entries of
  equal score keep their order. \<open>insert_desc\<close> puts an entry behind every entry whose
  score is not smaller.
\<close>

fun insert_desc :: "scored \<Rightarrow> scored list \<Rightarrow> scored list" where
  "insert_desc x [] = [x]"
| "insert_desc x (y # ys) = (if score y < score x then x # y # ys else y # insert_desc x ys)"

definition sort_desc :: "scored list \<Rightarrow> scored list" where
  "sort_desc xs = foldl (\<lambda>acc x. insert_desc x acc) [] xs"

definition best_of :: "scored list \<Rightarrow> scored option" where
  \<comment> \<open>\<open>scored.sort(...)[0]\<close>, \<open>undefined\<close> on the empty catalog\<close>
  "best_of xs = (case sort_desc xs of [] \<Rightarrow> None | b # _ \<Rightarrow> Some b)"

definition all_digits :: "string \<Rightarrow> bool" where
  \<comment> \<open>\<open>/^\d+$/.test(token)\<close>\<close>
  "all_digits t = (t \<noteq> [] \<and> list_all is_digit t)"

section \<open>The voice-assistant parser\<close>

definition separators :: "string list" where
  "separators = ['' and '', '', '', '' plus '', '' with '']"

text \<open>
  \<open>part.split(sep)\<close> with a string separator, which is never empty here: the pieces
  between the occurrences of \<open>sep\<close> found from left to right.
\<close>

function split_str_loop :: "string \<Rightarrow> string \<Rightarrow> string \<Rightarrow> string list" where
  "split_str_loop sep cur s =
     (if sep \<noteq> [] \<and> take (length sep) s = sep
      then rev cur # split_str_loop sep [] (drop (length sep) s)
      else (case s of [] \<Rightarrow> [rev cur] | c # cs \<Rightarrow> split_str_loop sep (c # cur) cs))"
  by pat_completeness auto
termination
proof (relation "measure (\<lambda>(sep, cur, s). length s)")
  fix sep cur :: string and s :: string
  assume a: "sep \<noteq> [] \<and> take (length sep) s = sep"
  then have "length sep \<le> length s"
    by (metis length_take min.cobounded1)
  with a show "((sep, [], drop (length sep) s), (sep, cur, s)) \<in> measure (\<lambda>(sep, cur, s). length s)"
    by (cases sep) auto
qed auto

definition split_str :: "string \<Rightarrow> string \<Rightarrow> string list" where
  "split_str sep s = split_str_loop sep [] s"

definition split_parts_voice :: "string \<Rightarrow> string list" where
  "split_parts_voice command =
     foldl (\<lambda>parts sep. concat (map (split_str sep) parts)) [command] separators"

text \<open>
  \<open>trimmedPart.match(/(\d+)\s+/)\<close>, its group 1: the leftmost start from which a run of
  digits reaches white space. The run taken is the longest, and a shorter one would end
  before a digit, so a start fails when the longest run does.
\<close>

fun numericMatch_voice :: "string \<Rightarrow> string option" where
  "numericMatch_voice [] = None"
| "numericMatch_voice (c # cs) =
     (if is_digit c \<and> (case dropWhile is_digit cs of [] \<Rightarrow> False | d # _ \<Rightarrow> is_space d)
      then Some (c # takeWhile is_digit cs)
      else numericMatch_voice cs)"

definition quantityWords_voice :: "string list" where
  "quantityWords_voice = [''one'', ''two'', ''three'', ''four'', ''five'', ''six'', ''seven'',
     ''eight'', ''nine'', ''ten'']"

definition quantityMap_voice :: "string \<Rightarrow> int option" where
  "quantityMap_voice = map_of [(''one'', 1), (''two'', 2), (''three'', 3), (''four'', 4),
     (''five'', 5), (''six'', 6), (''seven'', 7), (''eight'', 8), (''nine'', 9), (''ten'', 10)]"

fun word_quantity_voice :: "string list \<Rightarrow> string list \<Rightarrow> int option" where
  \<comment> \<open>the loop over \<open>quantityWords\<close>, left at the first word the part has; every word of
      the list is a key of \<open>quantityMap\<close>\<close>
  "word_quantity_voice partTokens [] = None"
| "word_quantity_voice partTokens (word # ws) =
     (if Set_has partTokens word then quantityMap_voice word
      else word_quantity_voice partTokens ws)"

definition quantity_voice :: "string \<Rightarrow> quantity_value" where
  "quantity_voice trimmedPart =
     (case numericMatch_voice trimmedPart of
        Some ds \<Rightarrow> parseInt ds
      | None \<Rightarrow>
          (case word_quantity_voice (new_Set (tokenize_voice trimmedPart)) quantityWords_voice of
             Some n \<Rightarrow> Number n
           | None \<Rightarrow> Number 1))"

definition partTokens_voice :: "string \<Rightarrow> string list" where
  "partTokens_voice trimmedPart =
     (let partTokens = new_Set (tokenize_voice trimmedPart);
          partTokens = foldl (\<lambda>s word. Set_delete word s) partTokens quantityWords_voice;
          numericTokens = filter all_digits partTokens
      in foldl (\<lambda>s token. Set_delete token s) partTokens numericTokens)"

definition best_voice :: "product list \<Rightarrow> string \<Rightarrow> scored option" where
  "best_voice products trimmedPart =
     best_of (score_products tokenize_voice products (partTokens_voice trimmedPart))"

definition part_item_voice :: "product list \<Rightarrow> string \<Rightarrow> parsed_item list" where
  \<comment> \<open>one round of the loop over the parts: what it pushes to \<open>items\<close>\<close>
  "part_item_voice products part =
     (let trimmedPart = trim part
      in if trimmedPart = [] then []
         else (case best_voice products trimmedPart of
                 None \<Rightarrow> []
               | Some best \<Rightarrow>
                   if score best > 0
                   then [\<lparr>productId = scored_productId best,
                          quantity = quantity_voice trimmedPart\<rparr>]
                   else []))"

definition parseMultipleItems_voice :: "product list \<Rightarrow> string \<Rightarrow> parsed_item list" where
  "parseMultipleItems_voice products command =
     concat (map (part_item_voice products) (split_parts_voice command))"

section \<open>The chat-input parser\<close>

subsection \<open>Segmentation\<close>

text \<open>
  \<open>input.split(/\s*(?:,|\band\b|&|\+|\bplus\b|\bwith\b)\s*/i)\<close>. A position of the
  matcher is the code unit before it (none at the start of the input) and the rest of
  the input. The first \<open>\s*\<close> takes the whole run of white space: no alternative begins
  with white space, so giving some of it back cannot help. With the flag \<open>i\<close> and
  without the flag \<open>u\<close> a letter of the pattern matches its two ASCII forms only.
\<close>

fun skip_space :: "char option \<Rightarrow> string \<Rightarrow> char option \<times> string" where
  "skip_space prev [] = (prev, [])"
| "skip_space prev (c # cs) = (if is_space c then skip_space (Some c) cs else (prev, c # cs))"

definition word_boundary :: "char option \<Rightarrow> string \<Rightarrow> bool" where
  \<comment> \<open>\<open>\b\<close>: a word character on exactly one side\<close>
  "word_boundary prev rest =
     ((case prev of None \<Rightarrow> False | Some c \<Rightarrow> is_word_char c)
      \<noteq> (case rest of [] \<Rightarrow> False | c # _ \<Rightarrow> is_word_char c))"

fun match_ci :: "string \<Rightarrow> char option \<Rightarrow> string \<Rightarrow> (char option \<times> string) option" where
  "match_ci [] prev s = Some (prev, s)"
| "match_ci (p # ps) prev [] = None"
| "match_ci (p # ps) prev (c # cs) = (if to_lower c = p then match_ci ps (Some c) cs else None)"

definition match_word :: "string \<Rightarrow> char option \<Rightarrow> string \<Rightarrow> (char option \<times> string) option" where
  \<comment> \<open>\<open>\bword\b\<close>\<close>
  "match_word w prev s =
     (if word_boundary prev s
      then (case match_ci w prev s of
              None \<Rightarrow> None
            | Some (prev', s') \<Rightarrow> if word_boundary prev' s' then Some (prev', s') else None)
      else None)"

definition or_else ::
  "(char option \<times> string) option \<Rightarrow> (char option \<times> string) option
     \<Rightarrow> (char option \<times> string) option" where
  \<comment> \<open>\<open>|\<close>: the right alternative is tried when the left one fails\<close>
  "or_else a b = (case a of None \<Rightarrow> b | Some r \<Rightarrow> Some r)"

definition sep_alt :: "char option \<Rightarrow> string \<Rightarrow> (char option \<times> string) option" where
  "sep_alt prev s =
     or_else (match_ci '','' prev s)
    (or_else (match_word ''and'' prev s)
    (or_else (match_ci ''&'' prev s)
    (or_else (match_ci ''+'' prev s)
    (or_else (match_word ''plus'' prev s)
             (match_word ''with'' prev s)))))"

definition sep_match :: "char option \<Rightarrow> string \<Rightarrow> (char option \<times> string) option" where
  "sep_match prev s =
     (case skip_space prev s of
        (prev1, s1) \<Rightarrow>
          (case sep_alt prev1 s1 of
             None \<Rightarrow> None
           | Some (prev2, s2) \<Rightarrow> Some (skip_space prev2 s2)))"

lemma skip_space_length: "length (snd (skip_space prev s)) \<le> length s"
  by (induction s arbitrary: prev) (auto simp: le_SucI)

lemma match_ci_length:
  "match_ci w prev s = Some (prev', s') \<Longrightarrow> length s' + length w = length s"
  by (induction w prev s rule: match_ci.induct) (auto split: if_splits)

lemma match_word_length:
  "match_word w prev s = Some (prev', s') \<Longrightarrow> length s' + length w = length s"
  by (auto simp: match_word_def split: if_splits option.splits dest: match_ci_length)

lemma or_else_Some: "or_else a b = Some r \<Longrightarrow> a = Some r \<or> b = Some r"
  by (cases a) (simp_all add: or_else_def)

lemma sep_alt_cases:
  assumes "sep_alt prev s = Some r"
  shows "match_ci '','' prev s = Some r \<or> match_word ''and'' prev s = Some r
       \<or> match_ci ''&'' prev s = Some r \<or> match_ci ''+'' prev s = Some r
       \<or> match_word ''plus'' prev s = Some r \<or> match_word ''with'' prev s = Some r"
  using assms unfolding sep_alt_def by (blast dest: or_else_Some)

lemma sep_alt_length:
  assumes "sep_alt prev s = Some (prev', s')"
  shows "length s' < length s"
  using sep_alt_cases [OF assms]
  by (auto dest!: match_ci_length match_word_length)

lemma sep_match_length:
  assumes "sep_match prev s = Some (prev', s')"
  shows "length s' < length s"
proof -
  obtain p1 s1 where k: "skip_space prev s = (p1, s1)" by (cases "skip_space prev s")
  with assms obtain p2 s2 where a: "sep_alt p1 s1 = Some (p2, s2)"
    and r: "skip_space p2 s2 = (prev', s')"
    by (auto simp: sep_match_def split: option.splits)
  have "length s' \<le> length s2" using skip_space_length [of p2 s2] r by simp
  moreover have "length s2 < length s1" using sep_alt_length [OF a] .
  moreover have "length s1 \<le> length s" using skip_space_length [of prev s] k by simp
  ultimately show ?thesis by simp
qed

text \<open>
  The scan of \<open>split\<close>: a match is tried at every position from the end of the last
  match on; where it succeeds the piece before it is emitted and the scan goes on behind
  the match. The pattern has no capturing group, so only pieces are emitted.
\<close>

function split_sep_loop :: "char option \<Rightarrow> string \<Rightarrow> string \<Rightarrow> string list" where
  "split_sep_loop prev cur [] = [rev cur]"
| "split_sep_loop prev cur (c # cs) =
     (case sep_match prev (c # cs) of
        Some (prev', rest) \<Rightarrow> rev cur # split_sep_loop prev' [] rest
      | None \<Rightarrow> split_sep_loop (Some c) (c # cur) cs)"
  by pat_completeness auto
termination
proof (relation "measure (\<lambda>(prev, cur, rest). length rest)")
  fix prev :: "char option" and cur :: string and c :: char and cs :: string
    and x2 :: "char option \<times> string" and prev' :: "char option" and rest :: string
  assume "sep_match prev (c # cs) = Some x2" and "(prev', rest) = x2"
  then have "length rest < length (c # cs)"
    using sep_match_length [of prev "c # cs" prev' rest] by simp
  then show "((prev', [], rest), (prev, cur, c # cs))
               \<in> measure (\<lambda>(prev, cur, rest). length rest)"
    by simp
qed simp_all

definition split_parts_chat :: "string \<Rightarrow> string list" where
  \<comment> \<open>\<open>.map(p => p.trim()).filter(Boolean)\<close> after the split\<close>
  "split_parts_chat input = filter (\<lambda>p. p \<noteq> []) (map trim (split_sep_loop None [] input))"

subsection \<open>Quantity\<close>

fun numericMatch_chat :: "string \<Rightarrow> string option" where
  \<comment> \<open>\<open>part.match(/(\d+)/)\<close>, its group 1: the leftmost run of digits, as long as it goes\<close>
  "numericMatch_chat [] = None"
| "numericMatch_chat (c # cs) =
     (if is_digit c then Some (c # takeWhile is_digit cs) else numericMatch_chat cs)"

definition quantityWords_chat :: "(string \<times> int) list" where
  "quantityWords_chat = [(''one'', 1), (''two'', 2), (''three'', 3), (''four'', 4),
     (''five'', 5), (''six'', 6), (''seven'', 7), (''eight'', 8), (''nine'', 9), (''ten'', 10),
     (''eleven'', 11), (''twelve'', 12)]"

definition quantityMap_chat :: "string \<Rightarrow> quantity_value option" where
  \<comment> \<open>\<open>quantityMap[t]\<close>, \<open>None\<close> for \<open>undefined\<close>\<close>
  "quantityMap_chat t =
     (case map_of quantityWords_chat t of
        Some n \<Rightarrow> Some (Number n)
      | None \<Rightarrow> if t = ''constructor'' then Some NotNumber else None)"

fun word_quantity_chat :: "string list \<Rightarrow> quantity_value option" where
  \<comment> \<open>the loop over the tokens, left at the first token the map has\<close>
  "word_quantity_chat [] = None"
| "word_quantity_chat (t # ts) =
     (case quantityMap_chat t of Some q \<Rightarrow> Some q | None \<Rightarrow> word_quantity_chat ts)"

definition clamp_quantity :: "quantity_value \<Rightarrow> quantity_value" where
  \<comment> \<open>\<open>if (quantity < 1) quantity = 1\<close>; the comparison is false on what is not a number\<close>
  "clamp_quantity q = (case q of Number n \<Rightarrow> if n < 1 then Number 1 else Number n
                        | Inexact \<Rightarrow> Inexact
                        | NotNumber \<Rightarrow> NotNumber)"

definition quantity_chat :: "string \<Rightarrow> quantity_value" where
  "quantity_chat part =
     clamp_quantity
       (case numericMatch_chat part of
          Some ds \<Rightarrow> parseInt ds
        | None \<Rightarrow>
            (case word_quantity_chat (tokenize_chat part) of
               Some q \<Rightarrow> q
             | None \<Rightarrow> Number 1))"

definition partTokens_chat :: "string \<Rightarrow> string list" where
  "partTokens_chat part =
     foldl (\<lambda>s q. Set_delete q s)
       (new_Set (filter (\<lambda>t. \<not> all_digits t) (tokenize_chat part)))
       (map fst quantityWords_chat)"

definition best_chat :: "product list \<Rightarrow> string \<Rightarrow> scored option" where
  "best_chat products part =
     best_of (score_products tokenize_chat products (partTokens_chat part))"

subsection \<open>Aggregation\<close>

text \<open>
  \<open>aggregated\<close> is an object, and its keys are strings: the code writes
  \<open>aggregated[best.productId]\<close>, which keys by \<open>String(best.productId)\<close>, and reads the
  identifier back with \<open>parseInt\<close>. \<open>String\<close> prints an integer below \<open>10 ^ 21\<close> in
  magnitude as its decimal numeral. From \<open>10 ^ 21\<close> on it prints \<open>d.ddde+N\<close> with the
  shortest digits that identify the double; the model prints the digits of the integer
  itself, which are those digits for every double of at most 15 significant digits
  (\<open>10 ^ 21\<close> is one). \<open>parseInt\<close> reads a sign and the digits that follow it, so of
  \<open>1e+21\<close> it reads 1.
\<close>

function decimal_digits :: "int \<Rightarrow> string" where
  \<comment> \<open>the decimal numeral of an integer that is not negative\<close>
  "decimal_digits n =
     (if n < 10 then [char_of (48 + n)]
      else decimal_digits (n div 10) @ [char_of (48 + n mod 10)])"
  by pat_completeness auto
termination
proof (relation "measure nat")
  fix n :: int
  assume "\<not> n < 10"
  then have "nat (n div 10) < nat n" by simp
  then show "(n div 10, n) \<in> measure nat" by simp
qed simp

declare decimal_digits.simps [simp del]

definition exponent_string :: "int \<Rightarrow> string" where
  "exponent_string n =
     (let ds = decimal_digits n
      in case rev (dropWhile (\<lambda>c. c = CHR ''0'') (rev ds)) of
           [] \<Rightarrow> []
         | d # fraction \<Rightarrow>
             d # (if fraction = [] then [] else CHR ''.'' # fraction)
               @ ''e+'' @ decimal_digits (int (length ds) - 1))"

definition magnitude_string :: "int \<Rightarrow> string" where
  \<comment> \<open>the bound is \<open>10 ^ 21\<close>\<close>
  "magnitude_string n =
     (if n < 1000000000000000000000 then decimal_digits n else exponent_string n)"

definition Number_toString :: "int \<Rightarrow> string" where
  \<comment> \<open>\<open>String(id)\<close>\<close>
  "Number_toString i =
     (if i < 0 then CHR ''-'' # magnitude_string (- i) else magnitude_string i)"

definition parseInt_key :: "string \<Rightarrow> int" where
  \<comment> \<open>\<open>parseInt(pid)\<close>: a key begins with a digit or with a minus sign and a digit, so
      the result is never \<open>NaN\<close>\<close>
  "parseInt_key pid =
     (case pid of
        [] \<Rightarrow> 0
      | c # cs \<Rightarrow>
          if c = CHR ''-'' then - digits_value (takeWhile is_digit cs)
          else digits_value (takeWhile is_digit pid))"

type_synonym aggregated = "(string \<times> quantity_value) list"

definition plus_quantity :: "quantity_value \<Rightarrow> quantity_value \<Rightarrow> quantity_value" where
  \<comment> \<open>\<open>+\<close>: the sum of two numbers, a string when one side is no number\<close>
  "plus_quantity a b =
     (case (a, b) of
        (Number m, Number n) \<Rightarrow> double_of_int (m + n)
      | (NotNumber, _) \<Rightarrow> NotNumber
      | (_, NotNumber) \<Rightarrow> NotNumber
      | _ \<Rightarrow> Inexact)"

definition or_zero :: "quantity_value option \<Rightarrow> quantity_value" where
  \<comment> \<open>\<open>aggregated[k] || 0\<close>\<close>
  "or_zero v = (case v of None \<Rightarrow> Number 0 | Some q \<Rightarrow> q)"

fun assign :: "string \<Rightarrow> quantity_value \<Rightarrow> aggregated \<Rightarrow> aggregated" where
  \<comment> \<open>\<open>aggregated[k] = v\<close>: an old key keeps its place, a new key comes last\<close>
  "assign k v [] = [(k, v)]"
| "assign k v ((k', v') # kvs) = (if k' = k then (k, v) # kvs else (k', v') # assign k v kvs)"

definition part_step_chat ::
  "product list \<Rightarrow> aggregated \<times> string list \<Rightarrow> string \<Rightarrow> aggregated \<times> string list" where
  \<comment> \<open>one round of \<open>parts.forEach\<close> on \<open>aggregated\<close> and \<open>unavailable\<close>\<close>
  "part_step_chat products st part =
     (case st of (aggregated, unavailable) \<Rightarrow>
        (case best_chat products part of
           None \<Rightarrow> (aggregated, unavailable @ [part])
         | Some best \<Rightarrow>
             if score best > 0
             then (assign (Number_toString (scored_productId best))
                     (plus_quantity
                        (or_zero (map_of aggregated (Number_toString (scored_productId best))))
                        (quantity_chat part))
                     aggregated,
                   unavailable)
             else (aggregated, unavailable @ [part])))"

definition array_index :: "string \<Rightarrow> int option" where
  \<comment> \<open>the keys that are array indices: the decimal numerals of the integers below
      \<open>2 ^ 32 - 1\<close>\<close>
  "array_index k =
     (if k \<noteq> [] \<and> list_all is_digit k \<and> decimal_digits (digits_value k) = k
         \<and> digits_value k < 4294967295
      then Some (digits_value k) else None)"

fun insert_key :: "string \<times> quantity_value \<Rightarrow> aggregated \<Rightarrow> aggregated" where
  "insert_key x [] = [x]"
| "insert_key x (y # ys) =
     (if digits_value (fst x) \<le> digits_value (fst y) then x # y # ys else y # insert_key x ys)"

definition Object_entries :: "aggregated \<Rightarrow> aggregated" where
  \<comment> \<open>the keys that are array indices in ascending order, then the others as created\<close>
  "Object_entries kvs =
     foldr insert_key (filter (\<lambda>kv. array_index (fst kv) \<noteq> None) kvs) []
     @ filter (\<lambda>kv. array_index (fst kv) = None) kvs"

record parse_result =
  items :: "parsed_item list"
  unavailable :: "string list"

definition parseMultipleItems_chat :: "product list \<Rightarrow> string \<Rightarrow> parse_result" where
  "parseMultipleItems_chat products input =
     (case foldl (part_step_chat products) ([], []) (split_parts_chat input) of
        (aggregated, unavailable_parts) \<Rightarrow>
          \<lparr>items = take 15 (map (\<lambda>(pid, qty). \<lparr>productId = parseInt_key pid, quantity = qty\<rparr>)
                              (Object_entries aggregated)),
           unavailable = unavailable_parts\<rparr>)"

section \<open>The voice command handler\<close>

text \<open>
  \<open>handleVoiceCommand\<close> speaks and shows messages and calls one of the two cart
  callbacks; an \<open>outcome\<close> is the callback called, \<open>NotFound\<close> when neither is.
\<close>

datatype outcome = BulkAddToCart "parsed_item list" | AddToCart int | NotFound

definition categoryIntent :: "string list" where
  "categoryIntent = [''vegetable'', ''fruit'', ''dairy'', ''staple'', ''rice'', ''flour'',
     ''milk'', ''yogurt'', ''banana'', ''apple'', ''tomato'', ''spinach'']"

definition categoryMap :: "(string \<times> string) list" where
  "categoryMap = [(''vegetable'', ''vegetables''), (''fruit'', ''fruits''),
     (''dairy'', ''dairy''), (''staple'', ''staples'')]"

definition category_fallback :: "product list \<Rightarrow> string list \<Rightarrow> outcome" where
  "category_fallback products queryTokens =
     (case find (\<lambda>k. Set_has queryTokens k) (map fst categoryMap) of
        None \<Rightarrow> NotFound
      | Some targetCat \<Rightarrow>
          (case map_of categoryMap targetCat of
             None \<Rightarrow> NotFound
           | Some catKey \<Rightarrow>
               (case find (\<lambda>p. toLowerCase (category_p p) = catKey) products of
                  None \<Rightarrow> NotFound
                | Some product_found \<Rightarrow> AddToCart (id_p product_found))))"

definition single_item_fallback :: "product list \<Rightarrow> string list \<Rightarrow> outcome" where
  "single_item_fallback products queryTokens =
     (let hasCategoryOnlyIntent =
            (list_ex (\<lambda>c. Set_has queryTokens c) categoryIntent \<and> length queryTokens \<le> 2);
          best = best_of (score_products tokenize_voice products queryTokens);
          specific = (case best of None \<Rightarrow> False | Some b \<Rightarrow> score b > 0)
      in if specific
         then (case best of
                 None \<Rightarrow> NotFound
               | Some b \<Rightarrow>
                   (case find (\<lambda>p. id_p p = scored_productId b) products of
                      None \<Rightarrow> NotFound
                    | Some product_found \<Rightarrow> AddToCart (id_p product_found)))
         else if hasCategoryOnlyIntent then category_fallback products queryTokens
         else NotFound)"

definition handleVoiceCommand :: "product list \<Rightarrow> string \<Rightarrow> outcome" where
  "handleVoiceCommand products command =
     (let lowerCommand = toLowerCase command;
          queryTokens = new_Set (tokenize_voice lowerCommand);
          multipleItems = parseMultipleItems_voice products command;
          multipleItems = (if length multipleItems > 15 then take 15 multipleItems
                           else multipleItems)
      in if length multipleItems > 1 then BulkAddToCart multipleItems
         else if length multipleItems = 1 then BulkAddToCart multipleItems
         else single_item_fallback products queryTokens)"

section \<open>Catalogs of the examples\<close>

definition catalog_tomato_banana :: "product list" where
  "catalog_tomato_banana =
     [\<lparr>id_p = 1, name_p = ''Fresh Tomatoes'', category_p = ''vegetables''\<rparr>,
      \<lparr>id_p = 3, name_p = ''Sweet Bananas'', category_p = ''fruits''\<rparr>]"

definition catalog_apples :: "product list" where
  "catalog_apples = [\<lparr>id_p = 7, name_p = ''Apples'', category_p = ''fruits''\<rparr>]"

definition catalog_plus :: "product list" where
  "catalog_plus = [\<lparr>id_p = 1, name_p = ''Protein Plus'', category_p = ''staples''\<rparr>]"


section \<open>The steps in the words of the specification\<close>


















section \<open>Classes of characters\<close>







section \<open>Words, singular forms and tokens\<close>
















section \<open>Runs of digits and number words\<close>




















lemma set_foldl_Set_add: "set (foldl Set_add s ts) = set s \<union> set ts"
  by (induction ts arbitrary: s) (auto simp: Set_add_def)

lemma set_new_Set: "set (new_Set ts) = set ts"
  by (simp add: new_Set_def set_foldl_Set_add)






section \<open>The best match\<close>

text \<open>
  The head of the stable sort by descending score is the first of the scored products
  that has the highest score: the products before it in the catalog score strictly
  lower, the products after it do not score higher. The score of a product is the number
  of tokens that its name shares with the fragment.
\<close>

lemma insert_desc_Cons:
  "\<exists>acc'. insert_desc x (b # acc) = (if score b < score x then x else b) # acc'"
  by simp

lemma foldl_insert_desc_first_highest:
  "foldl (\<lambda>acc x. insert_desc x acc) (b # acc) xs = r # rest \<Longrightarrow>
   \<exists>pre post. b # xs = pre @ r # post
      \<and> (\<forall>y\<in>set pre. score y < score r) \<and> (\<forall>y\<in>set post. score y \<le> score r)"
proof (induction xs arbitrary: b acc r rest)
  case Nil
  then have "b = r" by simp
  then show ?case by (intro exI [of _ "[]"]) simp
next
  case (Cons x xs)
  define c where "c = (if score b < score x then x else b)"
  obtain acc' where step: "insert_desc x (b # acc) = c # acc'"
    using insert_desc_Cons [of x b acc] by (auto simp: c_def)
  with Cons.prems have "foldl (\<lambda>acc x. insert_desc x acc) (c # acc') xs = r # rest"
    by simp
  from Cons.IH [OF this] obtain pre post where d: "c # xs = pre @ r # post"
    and lo: "\<forall>y\<in>set pre. score y < score r" and hi: "\<forall>y\<in>set post. score y \<le> score r"
    by blast
  show ?case
  proof (cases pre)
    case Nil
    with d have cr: "c = r" and xp: "xs = post" by simp_all
    show ?thesis
    proof (cases "score b < score x")
      case True
      then have "b # x # xs = [b] @ r # post" using cr xp by (simp add: c_def)
      moreover have "\<forall>y\<in>set [b]. score y < score r" using True cr by (simp add: c_def)
      ultimately show ?thesis using hi by blast
    next
      case False
      then have "b # x # xs = [] @ r # (x # post)" using cr xp by (simp add: c_def)
      moreover have "\<forall>y\<in>set (x # post). score y \<le> score r"
        using False cr hi by (auto simp: c_def)
      ultimately show ?thesis by (metis empty_iff empty_set)
    qed
  next
    case (Cons c' pre')
    with d have cc: "c' = c" and xp: "xs = pre' @ r # post" by simp_all
    have "score c < score r" using lo Cons cc by simp
    then have "score b < score r" and "score x < score r"
      by (auto simp: c_def split: if_splits)
    then have "\<forall>y\<in>set (b # x # pre'). score y < score r" using lo Cons by simp
    moreover have "b # x # xs = (b # x # pre') @ r # post" using xp by simp
    ultimately show ?thesis using hi by blast
  qed
qed

lemma best_of_Nil: "best_of [] = None"
  by (simp add: best_of_def sort_desc_def)

lemma best_of_first_highest:
  assumes "best_of xs = Some r"
  shows "\<exists>pre post. xs = pre @ r # post
      \<and> (\<forall>y\<in>set pre. score y < score r) \<and> (\<forall>y\<in>set post. score y \<le> score r)"
proof (cases xs)
  case Nil with assms show ?thesis by (simp add: best_of_Nil)
next
  case (Cons x xs')
  with assms obtain rest where "foldl (\<lambda>acc x. insert_desc x acc) [x] xs' = r # rest"
    by (auto simp: best_of_def sort_desc_def split: list.splits)
  from foldl_insert_desc_first_highest [OF this] show ?thesis using Cons by simp
qed

lemma best_of_products:
  assumes "best_of (score_products tok products pt) = Some b"
  shows "\<exists>pre p post. products = pre @ p # post
      \<and> b = \<lparr>scored_productId = id_p p, score = score_of tok pt p\<rparr>
      \<and> (\<forall>q\<in>set pre. score_of tok pt q < score_of tok pt p)
      \<and> (\<forall>q\<in>set post. score_of tok pt q \<le> score_of tok pt p)"
proof -
  let ?f = "\<lambda>p. \<lparr>scored_productId = id_p p, score = score_of tok pt p\<rparr>"
  from best_of_first_highest [OF assms] obtain pre' post'
    where d: "map ?f products = pre' @ b # post'"
      and lo: "\<forall>y\<in>set pre'. score y < score b" and hi: "\<forall>y\<in>set post'. score y \<le> score b"
    unfolding score_products_def by blast
  from d obtain pre rest where "products = pre @ rest" and p1: "pre' = map ?f pre"
    and r: "b # post' = map ?f rest"
    by (auto simp: map_eq_append_conv)
  moreover from r obtain p post where "rest = p # post" and "b = ?f p" and "post' = map ?f post"
    by (auto simp: Cons_eq_map_conv)
  ultimately have "products = pre @ p # post" and "b = ?f p"
    and "\<forall>q\<in>set pre. score_of tok pt q < score_of tok pt p"
    and "\<forall>q\<in>set post. score_of tok pt q \<le> score_of tok pt p"
    using lo hi by auto
  then show ?thesis by blast
qed

lemma best_of_catalog:
  "best_of (score_products tok products pt) = Some b \<Longrightarrow> scored_productId b \<in> id_p ` set products"
  by (drule best_of_products) auto

lemma distinct_foldl_Set_add: "distinct s \<Longrightarrow> distinct (foldl Set_add s ts)"
  by (induction ts arbitrary: s) (auto simp: Set_add_def)

lemma distinct_new_Set: "distinct (new_Set ts)"
  by (simp add: new_Set_def distinct_foldl_Set_add)

lemma score_of_card: "score_of tok pt p = card (set (tok (name_p p)) \<inter> set pt)"
proof -
  have "score_of tok pt p = card ({t. t \<in> set pt} \<inter> set (new_Set (tok (name_p p))))"
    unfolding score_of_def Set_has_def
    by (rule distinct_length_filter) (rule distinct_new_Set)
  then show ?thesis by (simp add: set_new_Set Int_commute)
qed

lemma best_voice_first_highest:
  assumes "best_voice products trimmedPart = Some b"
  shows "\<exists>pre p post. products = pre @ p # post
      \<and> b = \<lparr>scored_productId = id_p p,
              score = score_of tokenize_voice (partTokens_voice trimmedPart) p\<rparr>
      \<and> (\<forall>q\<in>set pre. score_of tokenize_voice (partTokens_voice trimmedPart) q
                          < score_of tokenize_voice (partTokens_voice trimmedPart) p)
      \<and> (\<forall>q\<in>set post. score_of tokenize_voice (partTokens_voice trimmedPart) q
                          \<le> score_of tokenize_voice (partTokens_voice trimmedPart) p)"
  using assms unfolding best_voice_def by (rule best_of_products)

lemma best_chat_first_highest:
  assumes "best_chat products part = Some b"
  shows "\<exists>pre p post. products = pre @ p # post
      \<and> b = \<lparr>scored_productId = id_p p,
              score = score_of tokenize_chat (partTokens_chat part) p\<rparr>
      \<and> (\<forall>q\<in>set pre. score_of tokenize_chat (partTokens_chat part) q
                          < score_of tokenize_chat (partTokens_chat part) p)
      \<and> (\<forall>q\<in>set post. score_of tokenize_chat (partTokens_chat part) q
                          \<le> score_of tokenize_chat (partTokens_chat part) p)"
  using assms unfolding best_chat_def by (rule best_of_products)


section \<open>Identifiers of the result\<close>

text \<open>
  The voice-assistant parser returns identifiers of the catalog. The chat-input parser
  does so when every identifier of the catalog is below \<open>10 ^ 21\<close> in magnitude,
  where \<open>parseInt\<close> reads back what \<open>String\<close> has printed. With an empty catalog
  both return no item.
\<close>

lemma voice_ids_in_catalog:
  assumes "item \<in> set (parseMultipleItems_voice products command)"
  shows "productId item \<in> id_p ` set products"
proof -
  from assms obtain part where m: "item \<in> set (part_item_voice products part)"
    by (auto simp: parseMultipleItems_voice_def)
  show ?thesis
  proof (cases "best_voice products (trim part)")
    case None
    then show ?thesis using m by (simp add: part_item_voice_def Let_def split: if_splits)
  next
    case (Some b)
    then have "scored_productId b \<in> id_p ` set products"
      unfolding best_voice_def by (rule best_of_catalog)
    moreover have "productId item = scored_productId b"
      using m Some by (simp add: part_item_voice_def Let_def split: if_splits)
    ultimately show ?thesis by simp
  qed
qed

lemma digits_value_snoc:
  "digits_value (ds @ [c]) = 10 * digits_value ds + ((of_char c :: int) - 48)"
  by (simp add: digits_value_def)

lemma is_digit_int: "is_digit c \<longleftrightarrow> 48 \<le> (of_char c :: int) \<and> (of_char c :: int) \<le> 57"
proof -
  have "(of_char c :: int) = int (of_char c)"
    by (rule of_nat_of_char [symmetric])
  then show ?thesis unfolding is_digit_def by linarith
qed

lemma takeWhile_all: "list_all P xs \<Longrightarrow> takeWhile P xs = xs"
  by (induction xs) simp_all

lemma of_char_digit: "0 \<le> d \<Longrightarrow> d < 10 \<Longrightarrow> (of_char (char_of (48 + d :: int)) :: int) = 48 + d"
  by simp

lemma decimal_digits_round:
  "0 \<le> n \<Longrightarrow> digits_value (decimal_digits n) = n \<and> list_all is_digit (decimal_digits n)
     \<and> decimal_digits n \<noteq> []"
proof (induction n rule: decimal_digits.induct)
  case (1 n)
  show ?case
  proof (cases "n < 10")
    case True
    then have d: "decimal_digits n = [char_of (48 + n)]"
      by (subst decimal_digits.simps) simp
    have "(of_char (char_of (48 + n)) :: int) = 48 + n"
      using 1(2) True by (rule of_char_digit)
    then have "is_digit (char_of (48 + n)) \<and> digits_value [char_of (48 + n)] = n"
      using 1(2) True by (simp add: digits_value_def is_digit_int [of "char_of (48 + n)"])
    then show ?thesis using d by simp
  next
    case False
    then have d: "decimal_digits n = decimal_digits (n div 10) @ [char_of (48 + n mod 10)]"
      by (subst decimal_digits.simps) simp
    have ih: "digits_value (decimal_digits (n div 10)) = n div 10
        \<and> list_all is_digit (decimal_digits (n div 10))"
      using 1(1) [OF False] 1(2) by simp
    have m: "(of_char (char_of (48 + n mod 10)) :: int) = 48 + n mod 10"
      by (rule of_char_digit) simp_all
    have v: "digits_value (decimal_digits n) = n"
      using ih m by (simp add: d digits_value_snoc)
    have "0 \<le> n mod 10 \<and> n mod 10 < 10" by simp
    then have "is_digit (char_of (48 + n mod 10))"
      using m by (simp add: is_digit_int [of "char_of (48 + n mod 10)"])
    then show ?thesis using ih v by (simp add: d)
  qed
qed

lemma parseInt_key_digits:
  assumes "0 \<le> n"
  shows "parseInt_key (decimal_digits n) = n"
proof -
  from decimal_digits_round [OF assms] obtain c cs where d: "decimal_digits n = c # cs"
    and all: "list_all is_digit (c # cs)" and "digits_value (c # cs) = n"
    by (cases "decimal_digits n") auto
  moreover have "c \<noteq> CHR ''-''" using all by (auto simp: is_digit_def)
  moreover have "takeWhile is_digit (c # cs) = c # cs"
    using all by (rule takeWhile_all)
  ultimately show ?thesis by (simp only: parseInt_key_def list.case if_False)
qed

lemma parseInt_key_round:
  assumes "\<bar>i\<bar> < 1000000000000000000000"
  shows "parseInt_key (Number_toString i) = i"
proof (cases "i < 0")
  case False
  then show ?thesis
    using assms parseInt_key_digits [of i] by (simp add: Number_toString_def magnitude_string_def)
next
  case True
  then have n: "0 \<le> - i" by simp
  have t: "takeWhile is_digit (decimal_digits (- i)) = decimal_digits (- i)"
    using decimal_digits_round [OF n] by (intro takeWhile_all) simp
  have v: "digits_value (decimal_digits (- i)) = - i"
    using decimal_digits_round [OF n] by simp
  have e: "parseInt_key (CHR ''-'' # decimal_digits (- i))
             = - digits_value (takeWhile is_digit (decimal_digits (- i)))"
    by (simp add: parseInt_key_def)
  have "parseInt_key (CHR ''-'' # decimal_digits (- i)) = i"
    unfolding e t v by simp
  then show ?thesis
    using assms True by (simp add: Number_toString_def magnitude_string_def)
qed

lemma keys_assign: "fst ` set (assign k v kvs) = insert k (fst ` set kvs)"
proof (induction kvs)
  case Nil
  show ?case by simp
next
  case (Cons kv kvs)
  obtain k' v' where kv: "kv = (k', v')" by (cases kv)
  show ?case
  proof (cases "k' = k")
    case True
    then show ?thesis using kv by auto
  next
    case False
    then show ?thesis using kv Cons by auto
  qed
qed

lemma part_step_chat_keys:
  assumes "fst ` set agg \<subseteq> Number_toString ` id_p ` set products"
  shows "fst ` set (fst (part_step_chat products (agg, un) part))
           \<subseteq> Number_toString ` id_p ` set products"
proof (cases "best_chat products part")
  case None
  then show ?thesis using assms by (simp add: part_step_chat_def)
next
  case (Some b)
  then have "scored_productId b \<in> id_p ` set products"
    unfolding best_chat_def by (rule best_of_catalog)
  then have "Number_toString (scored_productId b) \<in> Number_toString ` id_p ` set products"
    by (rule imageI)
  then show ?thesis using assms Some by (simp add: part_step_chat_def keys_assign)
qed

lemma foldl_part_step_chat_keys:
  "fst ` set (fst st) \<subseteq> Number_toString ` id_p ` set products \<Longrightarrow>
   fst ` set (fst (foldl (part_step_chat products) st parts))
     \<subseteq> Number_toString ` id_p ` set products"
proof (induction parts arbitrary: st)
  case Nil
  then show ?case by simp
next
  case (Cons part parts)
  obtain agg un where st: "st = (agg, un)" by (cases st)
  have "fst ` set (fst (part_step_chat products st part))
          \<subseteq> Number_toString ` id_p ` set products"
    using Cons.prems part_step_chat_keys [of agg products un part] by (simp add: st)
  from Cons.IH [OF this] show ?case by simp
qed

lemma set_insert_key: "set (insert_key x ys) = insert x (set ys)"
  by (induction ys) auto

lemma set_foldr_insert_key: "set (foldr insert_key xs []) = set xs"
  by (induction xs) (simp_all add: set_insert_key)

lemma set_Object_entries: "set (Object_entries kvs) = set kvs"
  by (auto simp: Object_entries_def set_foldr_insert_key)

lemma chat_ids_in_catalog:
  assumes b: "\<forall>p\<in>set products. \<bar>id_p p\<bar> < 1000000000000000000000"
    and m: "item \<in> set (items (parseMultipleItems_chat products input))"
  shows "productId item \<in> id_p ` set products"
proof -
  obtain agg un where st: "foldl (part_step_chat products) ([], []) (split_parts_chat input) = (agg, un)"
    by (cases "foldl (part_step_chat products) ([], []) (split_parts_chat input)")
  have keys: "fst ` set agg \<subseteq> Number_toString ` id_p ` set products"
    using foldl_part_step_chat_keys [of "([], [])" products "split_parts_chat input"] st by simp
  have "item \<in> set (map (\<lambda>(pid, qty). \<lparr>productId = parseInt_key pid, quantity = qty\<rparr>)
                        (Object_entries agg))"
    using m st by (auto simp: parseMultipleItems_chat_def dest: in_set_takeD)
  then obtain k q where kq: "(k, q) \<in> set agg" and i: "productId item = parseInt_key k"
    by (auto simp: set_Object_entries)
  from kq keys obtain p where p: "p \<in> set products" and k: "k = Number_toString (id_p p)"
    by force
  then have "parseInt_key k = id_p p" using b by (simp add: parseInt_key_round)
  then show ?thesis using i p by simp
qed

lemma empty_catalog_voice: "parseMultipleItems_voice [] command = []"
proof (cases "parseMultipleItems_voice [] command")
  case Nil
  then show ?thesis .
next
  case (Cons item rest)
  then have "item \<in> set (parseMultipleItems_voice [] command)" by simp
  then show ?thesis using voice_ids_in_catalog [of item "[]" command] by simp
qed

lemma empty_catalog_chat: "items (parseMultipleItems_chat [] input) = []"
proof (cases "items (parseMultipleItems_chat [] input)")
  case Nil
  then show ?thesis .
next
  case (Cons item rest)
  then have "item \<in> set (items (parseMultipleItems_chat [] input))" by simp
  then show ?thesis using chat_ids_in_catalog [of "[]" item input] by simp
qed

chapter \<open>The claims\<close>

section \<open>The worked example (C1)\<close>

text \<open>
  C1. For the catalog of Fresh Tomatoes (id 1) and Sweet Bananas (id 3) and the utterance
  "Add 2 tomatoes and 3 bananas", the voice-assistant parser and the chat-input parser
  each return the items (1, 2) and (3, 3), in that order.
\<close>

theorem example_tomatoes_bananas:
  "parseMultipleItems_voice catalog_tomato_banana ''Add 2 tomatoes and 3 bananas''
     = [\<lparr>productId = 1, quantity = Number 2\<rparr>, \<lparr>productId = 3, quantity = Number 3\<rparr>]
   \<and> items (parseMultipleItems_chat catalog_tomato_banana ''Add 2 tomatoes and 3 bananas'')
     = [\<lparr>productId = 1, quantity = Number 2\<rparr>, \<lparr>productId = 3, quantity = Number 3\<rparr>]"
  by code_simp

section \<open>Aggregation (C2)\<close>

text \<open>
  C2. A product that is the best match of several fragments gets a single item whose
  quantity is the sum of the fragments' quantities; "2 apples and 3 apples" against the
  one product "Apples" gives one item of quantity 5. The chat-input parser adds the
  quantities up under the product's key. The voice-assistant parser pushes an item for
  every matched fragment and adds nothing up: it returns two items of the same product.
\<close>

theorem voice_emits_duplicates:
  "parseMultipleItems_voice catalog_apples ''2 apples and 3 apples''
     = [\<lparr>productId = 7, quantity = Number 2\<rparr>, \<lparr>productId = 7, quantity = Number 3\<rparr>]
   \<and> items (parseMultipleItems_chat catalog_apples ''2 apples and 3 apples'')
     = [\<lparr>productId = 7, quantity = Number 5\<rparr>]"
  by code_simp

section \<open>Quantities of at least 1 (C3)\<close>

text \<open>
  C3. Every item of a parser's result has a quantity of at least 1; a detected quantity
  of 0 is raised to 1. The chat-input parser raises it; the voice-assistant parser has
  no such step and returns the quantity 0 for "0 tomatoes". In the chat-input parser a
  fragment without digits that holds the token "constructor" gets a quantity that is
  not a number.
\<close>

theorem voice_quantity_zero:
  "parseMultipleItems_voice catalog_tomato_banana ''0 tomatoes''
     = [\<lparr>productId = 1, quantity = Number 0\<rparr>]
   \<and> items (parseMultipleItems_chat catalog_tomato_banana ''0 tomatoes'')
     = [\<lparr>productId = 1, quantity = Number 1\<rparr>]
   \<and> items (parseMultipleItems_chat catalog_tomato_banana ''constructor tomatoes'')
     = [\<lparr>productId = 1, quantity = NotNumber\<rparr>]"
  by code_simp

section \<open>Quantity extraction (C4)\<close>




section \<open>Tokenization (C5)\<close>




section \<open>Selection of the best match (C6)\<close>

text \<open>
  C6. A fragment whose highest score is 0 contributes no item and is reported in the list
  of unmatched fragments. The chat-input parser appends such a fragment to
  \<open>unavailable\<close>. The voice-assistant parser returns the items and nothing else: of
  "2 tomatoes and 3 kiwis" it returns the tomatoes, the handler adds them to the cart, and
  the fragment "3 kiwis" is dropped without a trace.
\<close>

theorem voice_drops_unmatched_fragment:
  "parseMultipleItems_voice catalog_tomato_banana ''2 tomatoes and 3 kiwis''
     = [\<lparr>productId = 1, quantity = Number 2\<rparr>]
   \<and> handleVoiceCommand catalog_tomato_banana ''2 tomatoes and 3 kiwis''
     = BulkAddToCart [\<lparr>productId = 1, quantity = Number 2\<rparr>]
   \<and> parseMultipleItems_chat catalog_tomato_banana ''2 tomatoes and 3 kiwis''
     = \<lparr>items = [\<lparr>productId = 1, quantity = Number 2\<rparr>], unavailable = [''3 kiwis'']\<rparr>"
  by code_simp

section \<open>Segmentation (C7)\<close>

text \<open>
  C7. Segmentation splits on the comma, the word "and", "&", "+", "plus" and "with", in
  either case and with any white space around them. The chat-input parser does; the
  voice-assistant parser splits on the four literal strings " and ", ", ", " plus " and
  " with " only, so a comma without a space behind it, an ampersand and an upper-case
  "AND" separate nothing, and the second item of the utterance is lost.
\<close>

theorem voice_separators_literal:
  "split_parts_voice ''2 tomatoes,3 bananas'' = [''2 tomatoes,3 bananas'']
   \<and> split_parts_voice ''2 tomatoes & 3 bananas'' = [''2 tomatoes & 3 bananas'']
   \<and> split_parts_voice ''2 tomatoes AND 3 bananas'' = [''2 tomatoes AND 3 bananas'']
   \<and> split_parts_chat ''2 tomatoes,3 bananas'' = [''2 tomatoes'', ''3 bananas'']
   \<and> split_parts_chat ''2 tomatoes & 3 bananas'' = [''2 tomatoes'', ''3 bananas'']
   \<and> split_parts_chat ''2 tomatoes AND 3 bananas'' = [''2 tomatoes'', ''3 bananas'']
   \<and> parseMultipleItems_voice catalog_tomato_banana ''2 tomatoes,3 bananas''
     = [\<lparr>productId = 1, quantity = Number 2\<rparr>]"
  by code_simp

section \<open>The category fallback (C8)\<close>

text \<open>
  C8. When no product matches and the utterance holds a category keyword and at most one
  other token, the voice command handler adds the first product of the mapped category;
  the utterance "vegetables" gives one such item. In the code the tokenizer turns
  "vegetables" into "vegetabl" (the rule for a trailing "es"), which is not the keyword
  "vegetable": nothing is added. The singular "vegetable" does reach the fallback.
\<close>

theorem category_fallback_misses_vegetables:
  "tokenize_voice ''vegetables'' = [''vegetabl'']
   \<and> handleVoiceCommand catalog_tomato_banana ''vegetables'' = NotFound
   \<and> handleVoiceCommand catalog_tomato_banana ''vegetable'' = AddToCart 1"
  by code_simp

section \<open>Utterances of separators (C9)\<close>

text \<open>
  C9. An utterance that consists of separators and white space only gives no item. The
  utterance "plus" is such an utterance. The voice-assistant parser knows the separator
  only as " plus ", with a space on each side, so it takes the bare word as a fragment,
  whose token "plu" is also a token of the product name "Protein Plus": one item comes
  back. The chat-input parser returns none.
\<close>

theorem voice_separator_word_matches_product:
  "parseMultipleItems_voice catalog_plus ''plus'' = [\<lparr>productId = 1, quantity = Number 1\<rparr>]
   \<and> items (parseMultipleItems_chat catalog_plus ''plus'') = []"
  by code_simp

section \<open>Items come from the catalog (C10)\<close>


end
